theory Spec2Isabelle
  imports Main "HOL-Library.AList" "HOL-Library.Sublist"
begin

section \<open>The comment auto-reply service of \<^verbatim>\<open>server.js\<close>\<close>

text \<open>
  The service is one module: a JSON file used as a store, an activity log bounded to 200
  entries, the platform's verification handshake, the handler that answers each comment
  with a private reply once per post and commenter, and a dashboard behind a password.

  Conventions of the embedding.
  \<^item> A JavaScript string is a \<^typ>\<open>string\<close> of UTF-8 bytes; a value that may be
    \<^verbatim>\<open>undefined\<close> is a \<^typ>\<open>string option\<close>. Query parameters, headers, form fields
    and the identifiers of a payload are strings or absent: arrays and nested objects in
    their place are outside the model, and so is a payload whose \<^verbatim>\<open>entry\<close> or
    \<^verbatim>\<open>changes\<close> is not an array.
  \<^item> The module's global \<^verbatim>\<open>DB\<close>, the file on disk, the requests sent to the
    platform and the number of clock readings taken are the fields of one \<^verbatim>\<open>world\<close>
    record that every handler takes and returns.
  \<^item> The environment variables, the system clock and the platform's answers are the fields
    of an \<^verbatim>\<open>env\<close> record: the clock is any function from the index of a reading to
    milliseconds since the epoch, the platform any function from the index of a request
    and the request to an answer.
  \<^item> The admin handlers have no \<^verbatim>\<open>await\<close> and run from their first statement to
    their last. The webhook handler is described twice: \<^verbatim>\<open>post_webhook\<close> is the handler
    run to its end with no other handler in between, and the section on overlapping
    handlers splits it at its \<^verbatim>\<open>await\<close>, so that other handlers run while it waits.
    A failing \<^verbatim>\<open>fs.writeFileSync\<close> is outside the model.
\<close>

subsection \<open>Data\<close>

record log_entry =
  time :: int
  type :: string
  msg :: string
  extra :: "(string \<times> string) list"

record store =
  dm_text :: string
  sent_keys :: "(string \<times> int) list"
  logs :: "log_entry list"

datatype js_error = JsError (err_name: string) (err_message: string)

record request =
  url_comment_id :: string
  message :: string
  access_token :: "string option"

datatype fetch_result =
    Rejected js_error
  | Responded bool string

record env =
  VERIFY_TOKEN :: "string option"
  PAGE_ACCESS_TOKEN :: "string option"
  ADMIN_PASSWORD :: "string option"
  clock :: "nat \<Rightarrow> int"
  graph :: "nat \<Rightarrow> request \<Rightarrow> fetch_result"

record world =
  DB :: store
  disk :: "store option"
  outbox :: "(request \<times> fetch_result) list"
  reads :: nat

datatype response =
    Response (status: nat) (body: string)
  | Redirect (location: string)
  | Dashboard (safeText: string) (logsHtml: "log_entry list") (form_pass: string)

text \<open>
  \<^verbatim>\<open>Response\<close> is a status with a text body, \<^verbatim>\<open>Redirect\<close> the answer of
  \<^verbatim>\<open>res.redirect\<close>, \<^verbatim>\<open>Dashboard\<close> the page of \<^verbatim>\<open>GET /admin\<close>, kept as the three
  values its template interpolates.
\<close>

subsection \<open>JavaScript and Express primitives\<close>

text \<open>Truthiness of a string that may be undefined: the empty string is falsy.\<close>

definition truthy :: "string option \<Rightarrow> bool" where
  "truthy v = (case v of None \<Rightarrow> False | Some s \<Rightarrow> s \<noteq> [])"

text \<open>\<^verbatim>\<open>a || b\<close> on such values.\<close>

definition or_else :: "string option \<Rightarrow> string option \<Rightarrow> string option" where
  "or_else a b = (if truthy a then a else b)"

text \<open>
  \<^verbatim>\<open>res.sendStatus(code)\<close> of Express sets the status and sends the status message of the
  code as the body; \<^verbatim>\<open>res.status(code).send(x)\<close> sends the string, and nothing for
  \<^verbatim>\<open>undefined\<close>.
\<close>

definition status_message :: "nat \<Rightarrow> string" where
  "status_message code =
     (if code = 200 then ''OK''
      else if code = 401 then ''Unauthorized''
      else if code = 403 then ''Forbidden''
      else [])"

definition sendStatus :: "nat \<Rightarrow> response" where
  "sendStatus code = Response code (status_message code)"

definition send :: "nat \<Rightarrow> string option \<Rightarrow> response" where
  "send code x = Response code (case x of None \<Rightarrow> [] | Some s \<Rightarrow> s)"

text \<open>
  \<^verbatim>\<open>String.prototype.trim\<close> removes the WhiteSpace and LineTerminator code points of
  ECMAScript from both ends; these are their UTF-8 encodings.
\<close>

definition white_space :: "string list" where
  "white_space =
     [[CHR 0x09], [CHR 0x0A], [CHR 0x0B], [CHR 0x0C], [CHR 0x0D], [CHR 0x20],
      [CHR 0xC2, CHR 0xA0],
      [CHR 0xE1, CHR 0x9A, CHR 0x80],
      [CHR 0xE2, CHR 0x80, CHR 0x80], [CHR 0xE2, CHR 0x80, CHR 0x81],
      [CHR 0xE2, CHR 0x80, CHR 0x82], [CHR 0xE2, CHR 0x80, CHR 0x83],
      [CHR 0xE2, CHR 0x80, CHR 0x84], [CHR 0xE2, CHR 0x80, CHR 0x85],
      [CHR 0xE2, CHR 0x80, CHR 0x86], [CHR 0xE2, CHR 0x80, CHR 0x87],
      [CHR 0xE2, CHR 0x80, CHR 0x88], [CHR 0xE2, CHR 0x80, CHR 0x89],
      [CHR 0xE2, CHR 0x80, CHR 0x8A],
      [CHR 0xE2, CHR 0x80, CHR 0xA8], [CHR 0xE2, CHR 0x80, CHR 0xA9],
      [CHR 0xE2, CHR 0x80, CHR 0xAF],
      [CHR 0xE2, CHR 0x81, CHR 0x9F],
      [CHR 0xE3, CHR 0x80, CHR 0x80],
      [CHR 0xEF, CHR 0xBB, CHR 0xBF]]"

text \<open>The white space a string starts with, if any (never the empty sequence).\<close>

definition leading_space :: "string list \<Rightarrow> string \<Rightarrow> string option" where
  "leading_space ws s = find (\<lambda>p. p \<noteq> [] \<and> prefix p s) ws"

function trimStart_with :: "string list \<Rightarrow> string \<Rightarrow> string" where
  "trimStart_with ws s =
     (case leading_space ws s of
        None \<Rightarrow> s
      | Some p \<Rightarrow> trimStart_with ws (drop (length p) s))"
  by pat_completeness auto
termination
proof (relation "measure (\<lambda>(ws, s). length s)")
  show "wf (measure (\<lambda>(ws, s). length s))" by simp
next
  fix ws :: "string list" and s p :: string
  assume "leading_space ws s = Some p"
  then have ne: "p \<noteq> []" and pre: "prefix p s"
    by (auto simp: leading_space_def find_Some_iff)
  from ne have pos: "0 < length p"
    by simp
  from pre have le: "length p \<le> length s"
    by (rule prefix_length_le)
  from pos le have "length s - length p < length s"
    by arith
  then show "((ws, drop (length p) s), (ws, s)) \<in> measure (\<lambda>(ws, s). length s)"
    by simp
qed

declare trimStart_with.simps [simp del]

definition trimStart :: "string \<Rightarrow> string" where
  "trimStart s = trimStart_with white_space s"

definition trimEnd :: "string \<Rightarrow> string" where
  "trimEnd s = rev (trimStart_with (map rev white_space) (rev s))"

definition trim :: "string \<Rightarrow> string" where
  "trim s = trimEnd (trimStart s)"

text \<open>
  \<^verbatim>\<open>encodeURIComponent\<close>: the unreserved characters stay, every other byte becomes
  \<^verbatim>\<open>%XX\<close>; \<^verbatim>\<open>undefined\<close> is encoded as the text \<^verbatim>\<open>undefined\<close>.
\<close>

definition hex_digit :: "nat \<Rightarrow> char" where
  "hex_digit n = (''0123456789ABCDEF'') ! (n mod 16)"

definition unreserved :: "char \<Rightarrow> bool" where
  "unreserved c =
     (c \<in> set ''ABCDEFGHIJKLMNOPQRSTUVWXYZabcdefghijklmnopqrstuvwxyz0123456789-_.!~*()''
      \<or> c = CHR 0x27)"

definition encode_byte :: "char \<Rightarrow> string" where
  "encode_byte c =
     (if unreserved c then [c]
      else [CHR ''%'', hex_digit (of_char c div 16), hex_digit (of_char c mod 16)])"

definition encodeURIComponent :: "string option \<Rightarrow> string" where
  "encodeURIComponent v =
     concat (map encode_byte (case v of None \<Rightarrow> ''undefined'' | Some s \<Rightarrow> s))"

text \<open>
  \<^verbatim>\<open>String(err?.message || err)\<close> for a thrown \<^verbatim>\<open>Error\<close>: its message, and for an
  empty message what \<^verbatim>\<open>Error.prototype.toString\<close> gives, the name.
\<close>

definition error_text :: "js_error \<Rightarrow> string" where
  "error_text err = (if err_message err \<noteq> [] then err_message err else err_name err)"

subsection \<open>Storage\<close>

definition default_dm_text :: string where
  "default_dm_text =
     ''Thanks for commenting '' @ [CHR 0xE2, CHR 0x9C, CHR 0x85] @ '' Here''
       @ [CHR 0xE2, CHR 0x80, CHR 0x99] @ ''s the link: https://yourlink.com''"

text \<open>\<^verbatim>\<open>loadData\<close>: the parsed file, or the built-in document when reading or parsing fails.\<close>

definition loadData :: "store option \<Rightarrow> store" where
  "loadData file_content =
     (case file_content of
        Some parsed \<Rightarrow> parsed
      | None \<Rightarrow> \<lparr>dm_text = default_dm_text, sent_keys = [], logs = []\<rparr>)"

definition saveData :: "world \<Rightarrow> world" where
  "saveData w = w\<lparr>disk := Some (DB w)\<rparr>"

text \<open>The entry \<^verbatim>\<open>addLog\<close> builds: one reading of the clock for its time.\<close>

definition new_entry :: "env \<Rightarrow> nat \<Rightarrow> string \<Rightarrow> string \<Rightarrow> (string \<times> string) list \<Rightarrow> log_entry" where
  "new_entry e n ty m ex = \<lparr>time = clock e n, type = ty, msg = m, extra = ex\<rparr>"

definition addLog :: "env \<Rightarrow> string \<Rightarrow> string \<Rightarrow> (string \<times> string) list \<Rightarrow> world \<Rightarrow> world" where
  "addLog e ty m ex w =
     w\<lparr>DB := (DB w)\<lparr>logs := take 200 (new_entry e (reads w) ty m ex # logs (DB w))\<rparr>,
       reads := Suc (reads w)\<rparr>"

text \<open>The world at startup: \<^verbatim>\<open>let DB = loadData()\<close>.\<close>

definition startup :: "store option \<Rightarrow> world" where
  "startup file_content =
     \<lparr>DB = loadData file_content, disk = file_content, outbox = [], reads = 0\<rparr>"

subsection \<open>Webhook verification\<close>

record verify_query =
  hub_mode :: "string option"
  hub_verify_token :: "string option"
  hub_challenge :: "string option"

definition get_webhook :: "env \<Rightarrow> verify_query \<Rightarrow> response" where
  "get_webhook e q =
     (let mode = hub_mode q; token = hub_verify_token q; challenge = hub_challenge q
      in if mode = Some ''subscribe'' \<and> token = VERIFY_TOKEN e
         then send 200 challenge
         else sendStatus 403)"

subsection \<open>Sending a private reply\<close>

text \<open>A value interpolated into a template literal: \<^verbatim>\<open>undefined\<close> prints as its name.\<close>

definition template :: "string option \<Rightarrow> string" where
  "template v = (case v of None \<Rightarrow> ''undefined'' | Some s \<Rightarrow> s)"

text \<open>
  \<^verbatim>\<open>sendPrivateReply\<close> posts to the private-replies endpoint of the comment. The request
  and the platform's answer are recorded in the outbox whatever the answer is. A rejected
  \<^verbatim>\<open>fetch\<close> or an unreadable answer throws what the platform oracle says; an answer
  that is not \<^verbatim>\<open>ok\<close> throws an \<^verbatim>\<open>Error\<close> whose message is the answer's JSON text.
\<close>

definition sendPrivateReply ::
  "env \<Rightarrow> string option \<Rightarrow> string \<Rightarrow> world \<Rightarrow> (js_error + string) \<times> world" where
  "sendPrivateReply e comment_id message_text w =
     (let rq = \<lparr>url_comment_id = template comment_id, message = message_text,
                access_token = PAGE_ACCESS_TOKEN e\<rparr>;
          r = graph e (length (outbox w)) rq;
          w' = w\<lparr>outbox := outbox w @ [(rq, r)]\<rparr>
      in case r of
           Rejected err \<Rightarrow> (Inl err, w')
         | Responded ok j \<Rightarrow>
             if \<not> ok then (Inl (JsError ''Error'' j), w') else (Inr j, w'))"

subsection \<open>Receiving comment events\<close>

datatype obj_ref = ObjRef (ref_id: "string option")

datatype change_value =
  ChangeValue (value_id: "string option") (media: "obj_ref option") (from_obj: "obj_ref option")

datatype change = Change (value_obj: "change_value option")

datatype entry = Entry (changes: "change list option")

datatype payload = Payload (object: "string option") (entry: "entry list option")

text \<open>\<^verbatim>\<open>x?.id\<close>.\<close>

definition opt_id :: "obj_ref option \<Rightarrow> string option" where
  "opt_id x = (case x of None \<Rightarrow> None | Some r \<Rightarrow> ref_id r)"

text \<open>The key \<^verbatim>\<open>`${media_id}:${from_id}`\<close>.\<close>

definition dedupe_key :: "string option \<Rightarrow> string option \<Rightarrow> string" where
  "dedupe_key media_id from_id = template media_id @ '':'' @ template from_id"

text \<open>The test \<^verbatim>\<open>if (DB.sent_keys[key])\<close>: the key has a value, and the value is not 0.\<close>

definition already_sent :: "store \<Rightarrow> string \<Rightarrow> bool" where
  "already_sent db key = (case map_of (sent_keys db) key of None \<Rightarrow> False | Some t \<Rightarrow> t \<noteq> 0)"

definition fallback_text :: string where
  "fallback_text = ''Thanks for commenting '' @ [CHR 0xE2, CHR 0x9C, CHR 0x85]"

text \<open>
  The body of the inner loop for one change. The first component of the result is the error
  thrown, if any; \<^verbatim>\<open>continue\<close> and the end of the body both give \<^verbatim>\<open>None\<close>.
\<close>

definition process_change :: "env \<Rightarrow> change \<Rightarrow> world \<Rightarrow> js_error option \<times> world" where
  "process_change e change w =
     (let value = (case value_obj change of None \<Rightarrow> ChangeValue None None None | Some v \<Rightarrow> v);
          comment_id = value_id value;
          media_id = opt_id (media value);
          from_id = opt_id (from_obj value)
      in if \<not> truthy comment_id \<or> \<not> truthy media_id \<or> \<not> truthy from_id then (None, w)
         else
           let key = dedupe_key media_id from_id
           in if already_sent (DB w) key
              then (None, addLog e ''skip'' ''Already messaged for this post'' [(''key'', key)] w)
              else
                let message_text = (if dm_text (DB w) \<noteq> [] then dm_text (DB w) else fallback_text)
                in case sendPrivateReply e comment_id message_text w of
                     (Inl err, w1) \<Rightarrow> (Some err, w1)
                   | (Inr j, w1) \<Rightarrow>
                       let now = clock e (reads w1);
                           w2 = w1\<lparr>DB := (DB w1)\<lparr>sent_keys := AList.update key now (sent_keys (DB w1))\<rparr>,
                                  reads := Suc (reads w1)\<rparr>;
                           w3 = addLog e ''sent'' ''DM sent via private reply''
                                  [(''key'', key), (''comment_id'', template comment_id)] w2
                       in (None, saveData w3))"

fun for_changes :: "env \<Rightarrow> change list \<Rightarrow> world \<Rightarrow> js_error option \<times> world" where
  "for_changes e [] w = (None, w)"
| "for_changes e (c # cs) w =
     (case process_change e c w of
        (Some err, w') \<Rightarrow> (Some err, w')
      | (None, w') \<Rightarrow> for_changes e cs w')"

text \<open>\<^verbatim>\<open>x || []\<close> for an array that may be absent.\<close>

definition or_empty :: "'a list option \<Rightarrow> 'a list" where
  "or_empty x = (case x of None \<Rightarrow> [] | Some xs \<Rightarrow> xs)"

fun for_entries :: "env \<Rightarrow> entry list \<Rightarrow> world \<Rightarrow> js_error option \<times> world" where
  "for_entries e [] w = (None, w)"
| "for_entries e (en # ens) w =
     (case for_changes e (or_empty (changes en)) w of
        (Some err, w') \<Rightarrow> (Some err, w')
      | (None, w') \<Rightarrow> for_entries e ens w')"

text \<open>The \<^verbatim>\<open>try\<close> block, then the \<^verbatim>\<open>catch\<close> block when something was thrown.\<close>

definition try_block :: "env \<Rightarrow> payload \<Rightarrow> world \<Rightarrow> js_error option \<times> world" where
  "try_block e b w =
     (if object b \<noteq> Some ''instagram'' then (None, w)
      else for_entries e (or_empty (entry b)) w)"

definition post_webhook :: "env \<Rightarrow> payload \<Rightarrow> world \<Rightarrow> response \<times> world" where
  "post_webhook e b w =
     (sendStatus 200,
      case try_block e b w of
        (None, w') \<Rightarrow> w'
      | (Some err, w') \<Rightarrow>
          saveData (addLog e ''error'' ''Webhook processing failed''
                      [(''error'', error_text err)] w'))"

subsection \<open>Handlers that overlap\<close>

text \<open>
  The handler of \<^verbatim>\<open>POST /webhook\<close> is an async function. It runs without interruption
  up to \<^verbatim>\<open>await sendPrivateReply(comment_id, message)\<close>, where its request has gone
  out; there it is suspended until the platform has answered, and other handlers run in
  the meantime. From the answer it runs on, up to the next request or to its end.
  \<^verbatim>\<open>post_webhook\<close> above is one handler with nothing running in between; here the
  stretches between the suspensions are separate steps.

  A suspended handler is what it holds at the \<^verbatim>\<open>await\<close>: the key and the comment
  identifier of the change it is at, the answer its request gets, and the changes and the
  entries the two loops have still to visit.
\<close>

datatype suspended =
  Suspended (held_key: string) (held_comment_id: "string option") (answer: fetch_result)
    (changes_left: "change list") (entries_left: "entry list")

text \<open>The \<^verbatim>\<open>catch\<close> block.\<close>

definition catch_block :: "env \<Rightarrow> js_error \<Rightarrow> world \<Rightarrow> world" where
  "catch_block e err w =
     saveData (addLog e ''error'' ''Webhook processing failed'' [(''error'', error_text err)] w)"

text \<open>
  The two loops from some point on, up to the next request or to the end: the changes left
  in the entry at hand, then the entries left.
\<close>

fun run_to_await ::
  "env \<Rightarrow> change list \<Rightarrow> entry list \<Rightarrow> world \<Rightarrow> suspended option \<times> world" where
  "run_to_await e [] [] w = (None, w)"
| "run_to_await e [] (en # ens) w = run_to_await e (or_empty (changes en)) ens w"
| "run_to_await e (change # cs) ens w =
     (let value = (case value_obj change of None \<Rightarrow> ChangeValue None None None | Some v \<Rightarrow> v);
          comment_id = value_id value;
          media_id = opt_id (media value);
          from_id = opt_id (from_obj value)
      in if \<not> truthy comment_id \<or> \<not> truthy media_id \<or> \<not> truthy from_id
         then run_to_await e cs ens w
         else
           let key = dedupe_key media_id from_id
           in if already_sent (DB w) key
              then run_to_await e cs ens
                     (addLog e ''skip'' ''Already messaged for this post'' [(''key'', key)] w)
              else
                let message_text = (if dm_text (DB w) \<noteq> [] then dm_text (DB w) else fallback_text);
                    rq = \<lparr>url_comment_id = template comment_id, message = message_text,
                          access_token = PAGE_ACCESS_TOKEN e\<rparr>;
                    r = graph e (length (outbox w)) rq
                in (Some (Suspended key comment_id r cs ens),
                    w\<lparr>outbox := outbox w @ [(rq, r)]\<rparr>))"

text \<open>
  The handler from the answer of the platform on: a failed request throws into the
  \<^verbatim>\<open>catch\<close> block and the handler ends; an accepted one stores the key, appends the
  \<^verbatim>\<open>sent\<close> entry, saves, and the loops go on.
\<close>

definition resume :: "env \<Rightarrow> suspended \<Rightarrow> world \<Rightarrow> suspended option \<times> world" where
  "resume e s w =
     (case answer s of
        Rejected err \<Rightarrow> (None, catch_block e err w)
      | Responded ok j \<Rightarrow>
          if \<not> ok then (None, catch_block e (JsError ''Error'' j) w)
          else
            let now = clock e (reads w);
                w2 = w\<lparr>DB := (DB w)\<lparr>sent_keys := AList.update (held_key s) now (sent_keys (DB w))\<rparr>,
                       reads := Suc (reads w)\<rparr>;
                w3 = addLog e ''sent'' ''DM sent via private reply''
                       [(''key'', held_key s), (''comment_id'', template (held_comment_id s))] w2
            in run_to_await e (changes_left s) (entries_left s) (saveData w3))"

text \<open>A delivery arrives: the handler acknowledges and runs up to its first request.\<close>

definition arrive :: "env \<Rightarrow> payload \<Rightarrow> world \<Rightarrow> response \<times> suspended option \<times> world" where
  "arrive e b w =
     (sendStatus 200,
      if object b \<noteq> Some ''instagram'' then (None, w)
      else run_to_await e [] (or_empty (entry b)) w)"

text \<open>
  What happens to the server, one thing at a time: a delivery arrives, or the answer of the
  platform reaches the suspended handler at a position in the list of those in flight
  (nothing happens when there is none at that position).
\<close>

datatype occurrence = Delivery payload | Answered nat

fun occur :: "env \<Rightarrow> occurrence \<Rightarrow> suspended list \<times> world \<Rightarrow> suspended list \<times> world" where
  "occur e (Delivery b) (hs, w) =
     (case snd (arrive e b w) of
        (None, w') \<Rightarrow> (hs, w')
      | (Some s, w') \<Rightarrow> (hs @ [s], w'))"
| "occur e (Answered i) (hs, w) =
     (if i < length hs
      then (case resume e (hs ! i) w of
              (None, w') \<Rightarrow> (take i hs @ drop (Suc i) hs, w')
            | (Some s, w') \<Rightarrow> (hs[i := s], w'))
      else (hs, w))"

fun occur_all ::
  "env \<Rightarrow> occurrence list \<Rightarrow> suspended list \<times> world \<Rightarrow> suspended list \<times> world" where
  "occur_all e [] st = st"
| "occur_all e (x # xs) st = occur_all e xs (occur e x st)"

text \<open>
  The visits the two loops have still to make, and a handler run to its end with nothing
  else happening: each answer is taken as soon as the handler waits for it.
\<close>

definition work_left :: "change list \<Rightarrow> entry list \<Rightarrow> nat" where
  "work_left cs ens = length cs + sum_list (map (\<lambda>en. Suc (length (or_empty (changes en)))) ens)"

function finish :: "env \<Rightarrow> suspended option \<times> world \<Rightarrow> world" where
  "finish e (None, w) = w"
| "finish e (Some s, w) = finish e (resume e s w)"
  by pat_completeness auto
termination
proof (relation "measure (\<lambda>(e, h, w). case h of None \<Rightarrow> 0
                    | Some s \<Rightarrow> Suc (work_left (changes_left s) (entries_left s)))")
  show "wf (measure (\<lambda>(e, h, w). case h of None \<Rightarrow> 0
                    | Some s \<Rightarrow> Suc (work_left (changes_left s) (entries_left s))))"
    by simp
next
  fix e :: env and s :: suspended and w :: world
  have less: "work_left (changes_left s') (entries_left s') < work_left cs ens"
    if "run_to_await e cs ens w0 = (Some s', w')" for cs ens w0 s' w'
    using that
  proof (induction e cs ens w0 rule: run_to_await.induct)
    case (1 e w)
    then show ?case by simp
  next
    case (2 e en ens w)
    then have "work_left (changes_left s') (entries_left s') < work_left (or_empty (changes en)) ens"
      by simp
    then show ?case
      by (simp add: work_left_def)
  next
    case (3 e change cs ens w)
    then show ?case
      by (fastforce simp: Let_def work_left_def split: if_splits)
  qed
  obtain h w' where r: "resume e s w = (h, w')"
    by (cases "resume e s w")
  have "(case h of None \<Rightarrow> 0 | Some s' \<Rightarrow> Suc (work_left (changes_left s') (entries_left s')))
          < Suc (work_left (changes_left s) (entries_left s))"
  proof (cases h)
    case None
    then show ?thesis by simp
  next
    case (Some s')
    with r have "run_to_await e (changes_left s) (entries_left s)
        (saveData (addLog e ''sent'' ''DM sent via private reply''
           [(''key'', held_key s), (''comment_id'', template (held_comment_id s))]
           (w\<lparr>DB := (DB w)\<lparr>sent_keys := AList.update (held_key s) (clock e (reads w))
                                             (sent_keys (DB w))\<rparr>,
              reads := Suc (reads w)\<rparr>))) = (Some s', w')"
      by (auto simp: resume_def Let_def split: fetch_result.splits if_splits)
    then have "work_left (changes_left s') (entries_left s')
        < work_left (changes_left s) (entries_left s)"
      by (rule less)
    with Some show ?thesis by simp
  qed
  then show "((e, resume e s w), (e, Some s, w))
      \<in> measure (\<lambda>(e, h, w). case h of None \<Rightarrow> 0
                    | Some s \<Rightarrow> Suc (work_left (changes_left s) (entries_left s)))"
    by (simp add: r)
qed

subsection \<open>The dashboard\<close>

record admin_request =
  query_pass :: "string option"
  header_x_admin_pass :: "string option"
  body_dm_text :: "string option"

text \<open>
  \<^verbatim>\<open>requireAuth\<close>: \<^verbatim>\<open>Some\<close> of the 401 answer it has sent when it returns false,
  \<^verbatim>\<open>None\<close> when it returns true.
\<close>

definition requireAuth :: "env \<Rightarrow> admin_request \<Rightarrow> response option" where
  "requireAuth e rq =
     (let pass = or_else (query_pass rq) (header_x_admin_pass rq)
      in if \<not> truthy (ADMIN_PASSWORD e) \<or> pass \<noteq> ADMIN_PASSWORD e
         then Some (send 401 (Some ''Unauthorized. Add ?pass=YOUR_PASSWORD''))
         else None)"

text \<open>\<^verbatim>\<open>.replace(/</g, "&lt;").replace(/>/g, "&gt;")\<close>.\<close>

definition escape_angle :: "string \<Rightarrow> string" where
  "escape_angle s =
     concat (map (\<lambda>c. if c = CHR ''<'' then ''&lt;'' else if c = CHR ''>'' then ''&gt;'' else [c]) s)"

definition get_admin :: "env \<Rightarrow> admin_request \<Rightarrow> world \<Rightarrow> response \<times> world" where
  "get_admin e rq w =
     (case requireAuth e rq of
        Some r \<Rightarrow> (r, w)
      | None \<Rightarrow>
          (Dashboard (escape_angle (dm_text (DB w))) (logs (DB w))
             (encodeURIComponent (query_pass rq)), w))"

definition post_admin_save :: "env \<Rightarrow> admin_request \<Rightarrow> world \<Rightarrow> response \<times> world" where
  "post_admin_save e rq w =
     (case requireAuth e rq of
        Some r \<Rightarrow> (r, w)
      | None \<Rightarrow>
          let new_text = trim (case body_dm_text rq of None \<Rightarrow> [] | Some s \<Rightarrow> s);
              w1 = w\<lparr>DB := (DB w)\<lparr>dm_text := (if length new_text \<noteq> 0 then new_text
                                                  else dm_text (DB w))\<rparr>\<rparr>;
              w2 = addLog e ''config'' ''DM text updated'' [] w1
          in (Redirect (''/admin?pass='' @ encodeURIComponent (query_pass rq)), saveData w2))"

definition post_admin_reset :: "env \<Rightarrow> admin_request \<Rightarrow> world \<Rightarrow> response \<times> world" where
  "post_admin_reset e rq w =
     (case requireAuth e rq of
        Some r \<Rightarrow> (r, w)
      | None \<Rightarrow>
          let w1 = w\<lparr>DB := (DB w)\<lparr>sent_keys := []\<rparr>\<rparr>;
              w2 = addLog e ''config'' ''sent_keys reset'' [] w1
          in (send 200 (Some ''Reset done.''), saveData w2))"

subsection \<open>Runs of log appends and sample inputs\<close>

text \<open>Appending one entry after the other, and the entries these appends build, oldest first.\<close>

fun addLogs :: "env \<Rightarrow> (string \<times> string \<times> (string \<times> string) list) list \<Rightarrow> world \<Rightarrow> world" where
  "addLogs e [] w = w"
| "addLogs e ((ty, m, ex) # xs) w = addLogs e xs (addLog e ty m ex w)"

fun entries_from :: "env \<Rightarrow> nat \<Rightarrow> (string \<times> string \<times> (string \<times> string) list) list \<Rightarrow> log_entry list" where
  "entries_from e n [] = []"
| "entries_from e n ((ty, m, ex) # xs) = new_entry e n ty m ex # entries_from e (Suc n) xs"

text \<open>
  A sample environment: every variable set, a clock that starts at 1000 ms and advances by
  one with each reading, a platform that accepts every request. The second sample has no
  variable set, the third a platform that refuses every request.
\<close>

definition sample_clock :: "nat \<Rightarrow> int" where
  "sample_clock n = 1000 + int n"

definition accepting :: "nat \<Rightarrow> request \<Rightarrow> fetch_result" where
  "accepting n rq = Responded True ''{}''"

definition denied_text :: string where
  "denied_text = ''{\"error\":\"denied\"}''"

definition refusing :: "nat \<Rightarrow> request \<Rightarrow> fetch_result" where
  "refusing n rq = Responded False denied_text"

definition sample_env :: env where
  "sample_env =
     \<lparr>VERIFY_TOKEN = Some ''secret'', PAGE_ACCESS_TOKEN = Some ''page-token'',
      ADMIN_PASSWORD = Some ''hunter2'', clock = sample_clock, graph = accepting\<rparr>"

definition unset_env :: env where
  "unset_env =
     \<lparr>VERIFY_TOKEN = None, PAGE_ACCESS_TOKEN = None, ADMIN_PASSWORD = None,
      clock = sample_clock, graph = accepting\<rparr>"

definition refusing_env :: env where
  "refusing_env = sample_env\<lparr>graph := refusing\<rparr>"

text \<open>A well-formed comment event: comment, post and commenter.\<close>

definition comment_event :: "string \<Rightarrow> string \<Rightarrow> string \<Rightarrow> change" where
  "comment_event comment_id media_id from_id =
     Change (Some (ChangeValue (Some comment_id) (Some (ObjRef (Some media_id)))
                     (Some (ObjRef (Some from_id)))))"

definition batch :: "change list \<Rightarrow> payload" where
  "batch cs = Payload (Some ''instagram'') (Some [Entry (Some cs)])"

subsection \<open>Notions the properties are stated with\<close>

text \<open>The three identifiers the loop body reads from a change: comment, post, commenter.\<close>

definition change_ids :: "change \<Rightarrow> string option \<times> string option \<times> string option" where
  "change_ids change =
     (case value_obj change of
        None \<Rightarrow> (None, None, None)
      | Some v \<Rightarrow> (value_id v, opt_id (media v), opt_id (from_obj v)))"

text \<open>The request \<^verbatim>\<open>sendPrivateReply\<close> makes for a comment in a world.\<close>

definition reply_request :: "env \<Rightarrow> string option \<Rightarrow> world \<Rightarrow> request" where
  "reply_request e comment_id w =
     \<lparr>url_comment_id = template comment_id,
      message = (if dm_text (DB w) \<noteq> [] then dm_text (DB w) else fallback_text),
      access_token = PAGE_ACCESS_TOKEN e\<rparr>"

text \<open>What \<^verbatim>\<open>sendPrivateReply\<close> throws on an answer of the platform, if anything.\<close>

definition thrown_by :: "fetch_result \<Rightarrow> js_error option" where
  "thrown_by r =
     (case r of
        Rejected err \<Rightarrow> Some err
      | Responded ok j \<Rightarrow> if ok then None else Some (JsError ''Error'' j))"

text \<open>The requests in the outbox that the platform accepted: the replies that went out.\<close>

definition replies_sent :: "world \<Rightarrow> (request \<times> fetch_result) list" where
  "replies_sent w = filter (\<lambda>(rq, r). thrown_by r = None) (outbox w)"

text \<open>The changes of a payload in the order the two loops visit them.\<close>

definition events_of :: "payload \<Rightarrow> change list" where
  "events_of b =
     (if object b \<noteq> Some ''instagram'' then []
      else concat (map (\<lambda>en. or_empty (changes en)) (or_empty (entry b))))"

text \<open>A change is a comment event of a post and a commenter: all three identifiers present.\<close>

definition for_pair :: "string \<Rightarrow> string \<Rightarrow> change \<Rightarrow> bool" where
  "for_pair media_id from_id change =
     (case change_ids change of
        (c, m, f) \<Rightarrow> truthy c \<and> truthy m \<and> truthy f \<and> m = Some media_id \<and> f = Some from_id)"

text \<open>The requests \<^verbatim>\<open>requireAuth\<close> lets through.\<close>

definition authenticated :: "env \<Rightarrow> admin_request \<Rightarrow> bool" where
  "authenticated e rq =
     (truthy (ADMIN_PASSWORD e)
      \<and> or_else (query_pass rq) (header_x_admin_pass rq) = ADMIN_PASSWORD e)"

text \<open>
  Where the handler of \<^verbatim>\<open>post_webhook\<close> ends when it stands in the loops with these
  changes and entries to visit.
\<close>

definition rest_alone :: "env \<Rightarrow> change list \<Rightarrow> entry list \<Rightarrow> world \<Rightarrow> world" where
  "rest_alone e cs ens w =
     (case for_changes e cs w of
        (Some err, w1) \<Rightarrow> catch_block e err w1
      | (None, w1) \<Rightarrow>
          (case for_entries e ens w1 of
             (Some err, w2) \<Rightarrow> catch_block e err w2
           | (None, w2) \<Rightarrow> w2))"

definition admin_with :: "string \<Rightarrow> string option \<Rightarrow> admin_request" where
  "admin_with pass text =
     \<lparr>query_pass = Some pass, header_x_admin_pass = None, body_dm_text = text\<rparr>"

text \<open>A world that has run for a while: one entry in the log, written to disk.\<close>

definition sample_world :: world where
  "sample_world = saveData (addLog sample_env ''config'' ''DM text updated'' [] (startup None))"

text \<open>The sample world after the comment \<^verbatim>\<open>c1\<close> of commenter 42 on post 17 was answered.\<close>

definition replied_world :: world where
  "replied_world = snd (post_webhook sample_env (batch [comment_event ''c1'' ''17'' ''42'']) sample_world)"

text \<open>The sample world after a comment of commenter \<^verbatim>\<open>c\<close> on post \<^verbatim>\<open>a:b\<close> was answered.\<close>

definition colon_world :: world where
  "colon_world = snd (post_webhook sample_env (batch [comment_event ''c1'' ''a:b'' ''c'']) sample_world)"

text \<open>
  Two comments of commenter 42 on post 17, each in a delivery of its own. In the first
  course of events the second delivery arrives while the handler of the first waits for
  the platform; in the second it arrives after that handler has ended.
\<close>

definition overlapping :: "occurrence list" where
  "overlapping =
     [Delivery (batch [comment_event ''c1'' ''17'' ''42'']),
      Delivery (batch [comment_event ''c2'' ''17'' ''42'']),
      Answered 0, Answered 0]"

definition one_by_one :: "occurrence list" where
  "one_by_one =
     [Delivery (batch [comment_event ''c1'' ''17'' ''42'']),
      Answered 0,
      Delivery (batch [comment_event ''c2'' ''17'' ''42''])]"

section \<open>Properties\<close>

subsection \<open>Helper facts\<close>

lemma take_append_take: "take n (xs @ take n ys) = take n (xs @ ys)"
  by (simp add: min_def)

lemma logs_addLog: "logs (DB (addLog e ty m ex w)) = take 200 (new_entry e (reads w) ty m ex # logs (DB w))"
  by (simp add: addLog_def)

lemma reads_addLog: "reads (addLog e ty m ex w) = Suc (reads w)"
  by (simp add: addLog_def)

text \<open>The four ways through the loop body.\<close>

lemma change_ids_fields:
  assumes "change_ids ch = (c, m, f)"
  shows "value_id (case value_obj ch of None \<Rightarrow> ChangeValue None None None | Some v \<Rightarrow> v) = c"
    and "opt_id (media (case value_obj ch of None \<Rightarrow> ChangeValue None None None | Some v \<Rightarrow> v)) = m"
    and "opt_id (from_obj (case value_obj ch of None \<Rightarrow> ChangeValue None None None | Some v \<Rightarrow> v)) = f"
  using assms by (auto simp: change_ids_def opt_id_def split: option.splits)

lemma process_change_ignored:
  assumes "change_ids ch = (c, m, f)" and "\<not> truthy c \<or> \<not> truthy m \<or> \<not> truthy f"
  shows "process_change e ch w = (None, w)"
  using assms(2) by (auto simp: process_change_def Let_def change_ids_fields [OF assms(1)])

lemma process_change_skip:
  assumes "change_ids ch = (c, m, f)" and "truthy c" and "truthy m" and "truthy f"
    and "already_sent (DB w) (dedupe_key m f)"
  shows "process_change e ch w
           = (None, addLog e ''skip'' ''Already messaged for this post''
                      [(''key'', dedupe_key m f)] w)"
  using assms(2-5) by (simp add: process_change_def Let_def change_ids_fields [OF assms(1)])

lemma sendPrivateReply_eq:
  "sendPrivateReply e c (if dm_text (DB w) \<noteq> [] then dm_text (DB w) else fallback_text) w
     = (case thrown_by (graph e (length (outbox w)) (reply_request e c w)) of
          Some err \<Rightarrow> Inl err
        | None \<Rightarrow> Inr (case graph e (length (outbox w)) (reply_request e c w) of
                        Responded ok j \<Rightarrow> j | Rejected err \<Rightarrow> []),
        w\<lparr>outbox := outbox w @ [(reply_request e c w,
                                   graph e (length (outbox w)) (reply_request e c w))]\<rparr>)"
  by (simp add: sendPrivateReply_def reply_request_def thrown_by_def Let_def
      split: fetch_result.splits)

lemma process_change_failed:
  assumes "change_ids ch = (c, m, f)" and "truthy c" and "truthy m" and "truthy f"
    and "\<not> already_sent (DB w) (dedupe_key m f)"
    and "thrown_by (graph e (length (outbox w)) (reply_request e c w)) = Some err"
  shows "process_change e ch w
           = (Some err,
              w\<lparr>outbox := outbox w @ [(reply_request e c w,
                                         graph e (length (outbox w)) (reply_request e c w))]\<rparr>)"
  using assms(2-6)
  by (simp add: process_change_def Let_def change_ids_fields [OF assms(1)] sendPrivateReply_eq)

lemma process_change_sent:
  assumes "change_ids ch = (c, m, f)" and "truthy c" and "truthy m" and "truthy f"
    and "\<not> already_sent (DB w) (dedupe_key m f)"
    and "thrown_by (graph e (length (outbox w)) (reply_request e c w)) = None"
  shows "process_change e ch w
           = (None,
              saveData (addLog e ''sent'' ''DM sent via private reply''
                [(''key'', dedupe_key m f), (''comment_id'', template c)]
                (w\<lparr>outbox := outbox w @ [(reply_request e c w,
                        graph e (length (outbox w)) (reply_request e c w))],
                   DB := (DB w)\<lparr>sent_keys :=
                        AList.update (dedupe_key m f) (clock e (reads w)) (sent_keys (DB w))\<rparr>,
                   reads := Suc (reads w)\<rparr>)))"
  using assms(2-6)
  by (simp add: process_change_def Let_def change_ids_fields [OF assms(1)] sendPrivateReply_eq)

text \<open>The two loops visit the changes of a payload one after the other.\<close>

lemma for_changes_append:
  "for_changes e (xs @ ys) w
     = (case for_changes e xs w of
          (Some err, w') \<Rightarrow> (Some err, w')
        | (None, w') \<Rightarrow> for_changes e ys w')"
  by (induction xs arbitrary: w) (auto split: prod.splits option.splits)

lemma for_entries_concat:
  "for_entries e ens w = for_changes e (concat (map (\<lambda>en. or_empty (changes en)) ens)) w"
  by (induction ens arbitrary: w) (auto simp: for_changes_append split: prod.splits option.splits)

lemma try_block_events: "try_block e b w = for_changes e (events_of b) w"
  by (simp add: try_block_def events_of_def for_entries_concat)

lemma events_of_batch: "events_of (batch cs) = cs"
  by (simp add: events_of_def batch_def or_empty_def)

lemma change_ids_comment_event: "change_ids (comment_event c m f) = (Some c, Some m, Some f)"
  by (simp add: change_ids_def comment_event_def opt_id_def)

lemma requireAuth_authenticated: "authenticated e rq \<Longrightarrow> requireAuth e rq = None"
  by (simp add: requireAuth_def authenticated_def)

lemma requireAuth_refused:
  "\<not> authenticated e rq
     \<Longrightarrow> requireAuth e rq = Some (Response 401 ''Unauthorized. Add ?pass=YOUR_PASSWORD'')"
  by (auto simp: requireAuth_def authenticated_def send_def)


lemma post_webhook_single:
  "snd (post_webhook e (batch [ch]) w)
     = (case process_change e ch w of
          (None, w') \<Rightarrow> w'
        | (Some err, w') \<Rightarrow>
            saveData (addLog e ''error'' ''Webhook processing failed''
                        [(''error'', error_text err)] w'))"
  by (simp add: post_webhook_def try_block_events events_of_batch split: prod.splits option.splits)



text \<open>Appending to the log leaves the dedupe set, the outbox and the file alone.\<close>

lemma addLog_frame:
  "sent_keys (DB (addLog e ty m ex w)) = sent_keys (DB w)"
  "dm_text (DB (addLog e ty m ex w)) = dm_text (DB w)"
  "outbox (addLog e ty m ex w) = outbox w"
  "disk (addLog e ty m ex w) = disk w"
  by (simp_all add: addLog_def)

lemma addLogs_frame:
  "sent_keys (DB (addLogs e xs w)) = sent_keys (DB w)
   \<and> dm_text (DB (addLogs e xs w)) = dm_text (DB w)
   \<and> outbox (addLogs e xs w) = outbox w
   \<and> disk (addLogs e xs w) = disk w"
  by (induction e xs w rule: addLogs.induct) (simp_all add: addLog_frame)

lemma already_sent_addLog [simp]:
  "already_sent (DB (addLog e ty m ex w)) key = already_sent (DB w) key"
  by (simp add: already_sent_def addLog_frame)

lemma already_sent_addLogs [simp]:
  "already_sent (DB (addLogs e xs w)) key = already_sent (DB w) key"
  by (simp add: already_sent_def addLogs_frame)

lemma for_pair_ids:
  assumes "for_pair m f ch"
  obtains c where "change_ids ch = (c, Some m, Some f)" and "truthy c"
    and "truthy (Some m)" and "truthy (Some f)"
  using assms by (auto simp: for_pair_def split: prod.splits)

text \<open>
  A handler run to its end with nothing else happening ends where \<^verbatim>\<open>post_webhook\<close>
  ends: the two descriptions of the handler agree.
\<close>

lemma rest_alone_Nil [simp]: "rest_alone e [] [] w = w"
  by (simp add: rest_alone_def)

lemma rest_alone_next_entry [simp]:
  "rest_alone e [] (en # ens) w = rest_alone e (or_empty (changes en)) ens w"
  by (simp add: rest_alone_def split: prod.splits option.splits)

lemma rest_alone_change:
  "rest_alone e (ch # cs) ens w
     = (case process_change e ch w of
          (Some err, w1) \<Rightarrow> catch_block e err w1
        | (None, w1) \<Rightarrow> rest_alone e cs ens w1)"
  by (simp add: rest_alone_def split: prod.splits option.splits)

lemma run_to_await_change:
  assumes "change_ids ch = (c, m, f)"
  shows "run_to_await e (ch # cs) ens w
     = (if \<not> truthy c \<or> \<not> truthy m \<or> \<not> truthy f then run_to_await e cs ens w
        else if already_sent (DB w) (dedupe_key m f)
        then run_to_await e cs ens
               (addLog e ''skip'' ''Already messaged for this post''
                  [(''key'', dedupe_key m f)] w)
        else (Some (Suspended (dedupe_key m f) c
                      (graph e (length (outbox w)) (reply_request e c w)) cs ens),
              w\<lparr>outbox := outbox w @ [(reply_request e c w,
                     graph e (length (outbox w)) (reply_request e c w))]\<rparr>))"
  by (simp add: Let_def change_ids_fields [OF assms] reply_request_def)

lemma finish_step:
  assumes IH: "\<And>w. finish e (run_to_await e cs ens w) = rest_alone e cs ens w"
  shows "finish e (run_to_await e (ch # cs) ens w) = rest_alone e (ch # cs) ens w"
proof -
  obtain c m f where ids: "change_ids ch = (c, m, f)"
    by (cases "change_ids ch") auto
  let ?key = "dedupe_key m f"
  let ?r = "graph e (length (outbox w)) (reply_request e c w)"
  let ?w1 = "w\<lparr>outbox := outbox w @ [(reply_request e c w, ?r)]\<rparr>"
  consider (ignored) "\<not> truthy c \<or> \<not> truthy m \<or> \<not> truthy f"
    | (skip) "truthy c" "truthy m" "truthy f" "already_sent (DB w) ?key"
    | (call) "truthy c" "truthy m" "truthy f" "\<not> already_sent (DB w) ?key"
    by blast
  then show ?thesis
  proof cases
    case ignored
    then show ?thesis
      by (simp add: run_to_await_change [OF ids] rest_alone_change
          process_change_ignored [OF ids] IH del: run_to_await.simps)
  next
    case skip
    then show ?thesis
      by (simp add: run_to_await_change [OF ids] rest_alone_change
          process_change_skip [OF ids] IH del: run_to_await.simps)
  next
    case call
    have waits: "run_to_await e (ch # cs) ens w = (Some (Suspended ?key c ?r cs ens), ?w1)"
      using call by (simp add: run_to_await_change [OF ids] del: run_to_await.simps)
    show ?thesis
    proof (cases "thrown_by ?r")
      case None
      then obtain j where r: "?r = Responded True j"
        by (auto simp: thrown_by_def split: fetch_result.splits if_splits)
      have "finish e (run_to_await e (ch # cs) ens w) = finish e (resume e (Suspended ?key c ?r cs ens) ?w1)"
        by (simp only: waits finish.simps)
      also have "\<dots> = rest_alone e cs ens
          (saveData (addLog e ''sent'' ''DM sent via private reply''
             [(''key'', ?key), (''comment_id'', template c)]
             (w\<lparr>outbox := outbox w @ [(reply_request e c w, ?r)],
                DB := (DB w)\<lparr>sent_keys := AList.update ?key (clock e (reads w)) (sent_keys (DB w))\<rparr>,
                reads := Suc (reads w)\<rparr>)))"
        by (simp add: resume_def r Let_def IH)
      also have "\<dots> = rest_alone e (ch # cs) ens w"
        using call None by (simp add: rest_alone_change process_change_sent [OF ids])
      finally show ?thesis .
    next
      case (Some err)
      have "resume e (Suspended ?key c ?r cs ens) ?w1 = (None, catch_block e err ?w1)"
        using Some by (auto simp: resume_def thrown_by_def split: fetch_result.splits if_splits)
      then have "finish e (run_to_await e (ch # cs) ens w) = catch_block e err ?w1"
        by (simp only: waits finish.simps)
      also have "\<dots> = rest_alone e (ch # cs) ens w"
        using call Some by (simp add: rest_alone_change process_change_failed [OF ids])
      finally show ?thesis .
    qed
  qed
qed

lemma finish_run_to_await: "finish e (run_to_await e cs ens w) = rest_alone e cs ens w"
proof (induction ens arbitrary: cs w)
  case Nil
  show ?case
  proof (induction cs arbitrary: w)
    case Nil
    show ?case by simp
  next
    case (Cons ch cs)
    then show ?case by (rule finish_step)
  qed
next
  case (Cons en ens)
  show ?case
  proof (induction cs arbitrary: w)
    case Nil
    show ?case by (simp add: Cons.IH)
  next
    case inner: (Cons ch cs)
    then show ?case by (rule finish_step)
  qed
qed

lemma finish_arrive: "finish e (snd (arrive e b w)) = snd (post_webhook e b w)"
  by (simp add: arrive_def post_webhook_def try_block_def finish_run_to_await rest_alone_def
      catch_block_def split: prod.splits option.splits)

text \<open>A post identifier without a colon is the part of the key before its first colon.\<close>

lemma takeWhile_dedupe_key:
  assumes "CHR '':'' \<notin> set m"
  shows "takeWhile (\<lambda>x. x \<noteq> CHR '':'') (dedupe_key (Some m) (Some f)) = m"
proof -
  have "\<And>x. x \<in> set m \<Longrightarrow> x \<noteq> CHR '':''"
    using assms by auto
  then have "takeWhile (\<lambda>x. x \<noteq> CHR '':'') (m @ '':'' @ f)
      = m @ takeWhile (\<lambda>x. x \<noteq> CHR '':'') ('':'' @ f)"
    by (rule takeWhile_append2)
  then show ?thesis
    by (simp add: dedupe_key_def template_def)
qed

lemma dedupe_key_inj:
  assumes "CHR '':'' \<notin> set m" and "CHR '':'' \<notin> set m'"
    and "dedupe_key (Some m) (Some f) = dedupe_key (Some m') (Some f')"
  shows "m = m' \<and> f = f'"
proof -
  have "takeWhile (\<lambda>x. x \<noteq> CHR '':'') (dedupe_key (Some m) (Some f))
      = takeWhile (\<lambda>x. x \<noteq> CHR '':'') (dedupe_key (Some m') (Some f'))"
    using assms(3) by simp
  then have "m = m'"
    using assms(1,2) by (simp add: takeWhile_dedupe_key)
  with assms(3) show ?thesis
    by (simp add: dedupe_key_def template_def)
qed

lemma dedupe_key_collides:
  assumes "CHR '':'' \<in> set m"
  shows "\<exists>m' f'. (m', f') \<noteq> (m, f) \<and> dedupe_key (Some m') (Some f') = dedupe_key (Some m) (Some f)"
proof -
  from assms obtain a b where m: "m = a @ CHR '':'' # b"
    by (auto simp: in_set_conv_decomp)
  have "a \<noteq> m"
    by (simp add: m)
  moreover have "dedupe_key (Some a) (Some (b @ '':'' @ f)) = dedupe_key (Some m) (Some f)"
    by (simp add: dedupe_key_def template_def m)
  ultimately show ?thesis
    by blast
qed

lemma for_pair_comment_event: "c \<noteq> [] \<Longrightarrow> m \<noteq> [] \<Longrightarrow> f \<noteq> [] \<Longrightarrow> for_pair m f (comment_event c m f)"
  by (simp add: for_pair_def change_ids_comment_event truthy_def)

lemma take_logs_addLogs:
  "take 200 (logs (DB (addLogs e xs w)))
     = take 200 (rev (entries_from e (reads w) xs) @ logs (DB w))"
proof (induction xs arbitrary: w)
  case Nil
  show ?case by simp
next
  case (Cons x xs)
  obtain ty m ex where x: "x = (ty, m, ex)"
    by (cases x) auto
  have "take 200 (logs (DB (addLogs e (x # xs) w)))
          = take 200 (logs (DB (addLogs e xs (addLog e ty m ex w))))"
    by (simp add: x)
  also have "\<dots> = take 200 (rev (entries_from e (Suc (reads w)) xs)
                       @ take 200 (new_entry e (reads w) ty m ex # logs (DB w)))"
    by (simp only: Cons.IH reads_addLog logs_addLog)
  also have "\<dots> = take 200 (rev (entries_from e (Suc (reads w)) xs)
                       @ new_entry e (reads w) ty m ex # logs (DB w))"
    by (rule take_append_take)
  finally show ?case
    by (simp add: x)
qed

lemma length_logs_addLogs:
  "length (logs (DB w)) \<le> 200 \<Longrightarrow> length (logs (DB (addLogs e xs w))) \<le> 200"
proof (induction xs arbitrary: w)
  case Nil
  then show ?case by simp
next
  case (Cons x xs)
  obtain ty m ex where x: "x = (ty, m, ex)"
    by (cases x) auto
  have "length (logs (DB (addLog e ty m ex w))) \<le> 200"
    by (simp add: logs_addLog)
  then have "length (logs (DB (addLogs e xs (addLog e ty m ex w)))) \<le> 200"
    by (rule Cons.IH)
  then show ?case
    by (simp add: x)
qed

lemma logs_addLogs:
  assumes "xs \<noteq> []"
  shows "logs (DB (addLogs e xs w)) = take 200 (rev (entries_from e (reads w) xs) @ logs (DB w))"
proof -
  obtain ty m ex ys where xs: "xs = (ty, m, ex) # ys"
    using assms by (cases xs) auto
  have "length (logs (DB (addLog e ty m ex w))) \<le> 200"
    by (simp add: logs_addLog)
  then have "length (logs (DB (addLogs e ys (addLog e ty m ex w)))) \<le> 200"
    by (rule length_logs_addLogs)
  then have "length (logs (DB (addLogs e xs w))) \<le> 200"
    by (simp add: xs)
  then have "take 200 (logs (DB (addLogs e xs w))) = logs (DB (addLogs e xs w))"
    by simp
  then show ?thesis
    using take_logs_addLogs [of e xs w] by simp
qed

lemma length_entries_from: "length (entries_from e n xs) = length xs"
  by (induction e n xs rule: entries_from.induct) simp_all

subsection \<open>The activity log\<close>

text \<open>
  C3. Whatever the store and whatever the kind of entry, \<^verbatim>\<open>addLog\<close> puts the new
  entry at index 0, keeps the entries that were there in their order, each one index
  further, and leaves \<open>min (previous length + 1) 200\<close> entries. After a run of appends
  the log is the first 200 of the entries built, newest first, followed by the older log;
  after 200 appends or more, none of the older log is left.
\<close>

theorem addLog_newest_first_bounded:
  "logs (DB (addLog e ty m ex w)) ! 0 = new_entry e (reads w) ty m ex
   \<and> type (new_entry e (reads w) ty m ex) = ty
   \<and> (\<forall>i. Suc i < length (logs (DB (addLog e ty m ex w)))
          \<longrightarrow> logs (DB (addLog e ty m ex w)) ! Suc i = logs (DB w) ! i)
   \<and> drop 1 (logs (DB (addLog e ty m ex w))) = take 199 (logs (DB w))
   \<and> length (logs (DB (addLog e ty m ex w))) = min (length (logs (DB w)) + 1) 200
   \<and> (xs \<noteq> [] \<longrightarrow>
        logs (DB (addLogs e xs w))
          = take 200 (rev (entries_from e (reads w) xs) @ logs (DB w)))
   \<and> (200 \<le> length xs \<longrightarrow>
        logs (DB (addLogs e xs w)) = take 200 (rev (entries_from e (reads w) xs)))"
proof -
  let ?new = "new_entry e (reads w) ty m ex"
  let ?logs' = "logs (DB (addLog e ty m ex w))"
  have eq: "?logs' = ?new # take 199 (logs (DB w))"
    by (simp add: logs_addLog)
  have head: "?logs' ! 0 = ?new"
    by (simp add: eq)
  have kind: "type ?new = ty"
    by (simp add: new_entry_def)
  have shifted: "\<forall>i. Suc i < length ?logs' \<longrightarrow> ?logs' ! Suc i = logs (DB w) ! i"
    by (simp add: eq)
  have rest: "drop 1 ?logs' = take 199 (logs (DB w))"
    by (simp add: eq)
  have len: "length ?logs' = min (length (logs (DB w)) + 1) 200"
    by (simp add: eq min_def)
  have run: "xs \<noteq> [] \<longrightarrow>
      logs (DB (addLogs e xs w)) = take 200 (rev (entries_from e (reads w) xs) @ logs (DB w))"
    by (simp add: logs_addLogs)
  have full: "200 \<le> length xs \<longrightarrow>
      logs (DB (addLogs e xs w)) = take 200 (rev (entries_from e (reads w) xs))"
  proof
    assume long: "200 \<le> length xs"
    then have "xs \<noteq> []"
      by auto
    then have "logs (DB (addLogs e xs w))
        = take 200 (rev (entries_from e (reads w) xs) @ logs (DB w))"
      by (rule logs_addLogs)
    also have "\<dots> = take 200 (rev (entries_from e (reads w) xs))"
      using long by (simp add: length_entries_from)
    finally show "logs (DB (addLogs e xs w)) = take 200 (rev (entries_from e (reads w) xs))" .
  qed
  from head kind shifted rest len run full show ?thesis
    by blast
qed

theorem addLog_newest_first_bounded_witness:
  "Suc 0 < length (logs (DB (addLog sample_env ''skip'' ''Already messaged for this post''
                                [(''key'', ''17:42'')] sample_world)))
   \<and> logs (DB (addLog sample_env ''skip'' ''Already messaged for this post''
                  [(''key'', ''17:42'')] sample_world)) ! Suc 0
       = logs (DB sample_world) ! 0
   \<and> logs (DB (addLog sample_env ''skip'' ''Already messaged for this post''
                  [(''key'', ''17:42'')] sample_world)) ! 0
       = \<lparr>time = 1001, type = ''skip'', msg = ''Already messaged for this post'',
          extra = [(''key'', ''17:42'')]\<rparr>
   \<and> length (logs (DB (addLog sample_env ''skip'' ''Already messaged for this post''
                          [(''key'', ''17:42'')] sample_world))) = 2
   \<and> replicate 201 (''sent'', ''DM sent via private reply'', []) \<noteq> []
   \<and> 200 \<le> length (replicate 201 (''sent'', ''DM sent via private reply'', []))
   \<and> logs (DB (addLogs sample_env (replicate 201 (''sent'', ''DM sent via private reply'', []))
                  sample_world))
       = take 200 (rev (entries_from sample_env (reads sample_world)
                          (replicate 201 (''sent'', ''DM sent via private reply'', []))))"
proof -
  let ?xs = "replicate 201 (''sent'', ''DM sent via private reply'', [])"
  let ?w' = "addLog sample_env ''skip'' ''Already messaged for this post''
               [(''key'', ''17:42'')] sample_world"
  note fact = addLog_newest_first_bounded
    [of sample_env "''skip''" "''Already messaged for this post''" "[(''key'', ''17:42'')]"
        sample_world ?xs]
  have two: "length (logs (DB ?w')) = 2"
    by (simp add: sample_world_def startup_def loadData_def saveData_def addLog_def)
  then have below: "Suc 0 < length (logs (DB ?w'))"
    by simp
  with fact have shifted: "logs (DB ?w') ! Suc 0 = logs (DB sample_world) ! 0"
    by blast
  have "new_entry sample_env (reads sample_world) ''skip'' ''Already messaged for this post''
          [(''key'', ''17:42'')]
        = \<lparr>time = 1001, type = ''skip'', msg = ''Already messaged for this post'',
           extra = [(''key'', ''17:42'')]\<rparr>"
    by (simp add: sample_world_def sample_env_def sample_clock_def startup_def saveData_def
        addLog_def new_entry_def)
  with fact have head: "logs (DB ?w') ! 0
        = \<lparr>time = 1001, type = ''skip'', msg = ''Already messaged for this post'',
           extra = [(''key'', ''17:42'')]\<rparr>"
    by simp
  have ne: "?xs \<noteq> []"
    by simp
  have long: "200 \<le> length ?xs"
    by simp
  with fact have run: "logs (DB (addLogs sample_env ?xs sample_world))
        = take 200 (rev (entries_from sample_env (reads sample_world) ?xs))"
    by blast
  from below shifted head two ne long run show ?thesis
    by blast
qed

subsection \<open>The verification handshake\<close>

text \<open>
  C2, as the code has it. A request whose mode is \<^verbatim>\<open>subscribe\<close> and whose token equals
  the configured one is answered with status 200 and the challenge as the body (the empty
  body when no challenge came); every other request is answered with status 403, and the
  body of that answer is the status message \<^verbatim>\<open>Forbidden\<close> that \<^verbatim>\<open>res.sendStatus\<close>
  sends, not the empty body.
\<close>

theorem get_webhook_echo_or_forbidden:
  "(hub_mode q = Some ''subscribe'' \<and> hub_verify_token q = VERIFY_TOKEN e
      \<longrightarrow> get_webhook e q
            = Response 200 (case hub_challenge q of None \<Rightarrow> [] | Some c \<Rightarrow> c))
   \<and> (\<not> (hub_mode q = Some ''subscribe'' \<and> hub_verify_token q = VERIFY_TOKEN e)
      \<longrightarrow> get_webhook e q = Response 403 ''Forbidden'')"
  by (simp add: get_webhook_def send_def sendStatus_def status_message_def)

theorem get_webhook_echo_or_forbidden_witness:
  "(hub_mode \<lparr>hub_mode = Some ''subscribe'', hub_verify_token = Some ''secret'',
              hub_challenge = Some ''1158201444''\<rparr> = Some ''subscribe''
    \<and> hub_verify_token \<lparr>hub_mode = Some ''subscribe'', hub_verify_token = Some ''secret'',
              hub_challenge = Some ''1158201444''\<rparr> = VERIFY_TOKEN sample_env
    \<and> get_webhook sample_env \<lparr>hub_mode = Some ''subscribe'', hub_verify_token = Some ''secret'',
              hub_challenge = Some ''1158201444''\<rparr> = Response 200 ''1158201444'')
   \<and> (\<not> (hub_mode \<lparr>hub_mode = Some ''subscribe'', hub_verify_token = Some ''guess'',
              hub_challenge = Some ''1158201444''\<rparr> = Some ''subscribe''
          \<and> hub_verify_token \<lparr>hub_mode = Some ''subscribe'', hub_verify_token = Some ''guess'',
              hub_challenge = Some ''1158201444''\<rparr> = VERIFY_TOKEN sample_env)
    \<and> get_webhook sample_env \<lparr>hub_mode = Some ''subscribe'', hub_verify_token = Some ''guess'',
              hub_challenge = Some ''1158201444''\<rparr> = Response 403 ''Forbidden'')"
  using get_webhook_echo_or_forbidden
      [of "\<lparr>hub_mode = Some ''subscribe'', hub_verify_token = Some ''secret'',
            hub_challenge = Some ''1158201444''\<rparr>" sample_env]
    get_webhook_echo_or_forbidden
      [of "\<lparr>hub_mode = Some ''subscribe'', hub_verify_token = Some ''guess'',
            hub_challenge = Some ''1158201444''\<rparr>" sample_env]
  by (simp add: sample_env_def)

text \<open>
  C2 as the specification states it fails: a request with a wrong token is answered with
  status 403, and the body of the answer is not empty.
\<close>

theorem get_webhook_forbidden_body_counterexample:
  "get_webhook sample_env \<lparr>hub_mode = Some ''subscribe'', hub_verify_token = Some ''guess'',
       hub_challenge = Some ''1158201444''\<rparr> = Response 403 ''Forbidden''
   \<and> body (get_webhook sample_env \<lparr>hub_mode = Some ''subscribe'',
       hub_verify_token = Some ''guess'', hub_challenge = Some ''1158201444''\<rparr>) \<noteq> []"
  by (simp add: get_webhook_def sendStatus_def status_message_def sample_env_def)

text \<open>
  C9. With \<^verbatim>\<open>VERIFY_TOKEN\<close> unset, a request with mode \<^verbatim>\<open>subscribe\<close> and no
  \<^verbatim>\<open>hub.verify_token\<close> is answered with status 200 and the challenge (the empty body
  when there is none): both sides of the comparison are \<^verbatim>\<open>undefined\<close>. With
  \<^verbatim>\<open>ADMIN_PASSWORD\<close> unset, \<^verbatim>\<open>requireAuth\<close> refuses every request with
  status 401, whatever password it carries, and so does each of the three admin handlers,
  leaving the world as it was.
\<close>

theorem unset_verify_token_accepts_missing_token:
  "(VERIFY_TOKEN e = None \<and> hub_mode q = Some ''subscribe'' \<and> hub_verify_token q = None
      \<longrightarrow> get_webhook e q
            = Response 200 (case hub_challenge q of None \<Rightarrow> [] | Some c \<Rightarrow> c))
   \<and> (ADMIN_PASSWORD e = None
      \<longrightarrow> requireAuth e rq = Some (Response 401 ''Unauthorized. Add ?pass=YOUR_PASSWORD'')
          \<and> get_admin e rq w = (Response 401 ''Unauthorized. Add ?pass=YOUR_PASSWORD'', w)
          \<and> post_admin_save e rq w = (Response 401 ''Unauthorized. Add ?pass=YOUR_PASSWORD'', w)
          \<and> post_admin_reset e rq w = (Response 401 ''Unauthorized. Add ?pass=YOUR_PASSWORD'', w))"
  by (simp add: get_webhook_def send_def requireAuth_def truthy_def get_admin_def
      post_admin_save_def post_admin_reset_def)

theorem unset_verify_token_accepts_missing_token_witness:
  "VERIFY_TOKEN unset_env = None
   \<and> hub_mode \<lparr>hub_mode = Some ''subscribe'', hub_verify_token = None,
                hub_challenge = Some ''1158201444''\<rparr> = Some ''subscribe''
   \<and> hub_verify_token \<lparr>hub_mode = Some ''subscribe'', hub_verify_token = None,
                hub_challenge = Some ''1158201444''\<rparr> = None
   \<and> get_webhook unset_env \<lparr>hub_mode = Some ''subscribe'', hub_verify_token = None,
                hub_challenge = Some ''1158201444''\<rparr> = Response 200 ''1158201444''
   \<and> ADMIN_PASSWORD unset_env = None
   \<and> requireAuth unset_env \<lparr>query_pass = None, header_x_admin_pass = None, body_dm_text = None\<rparr>
       = Some (Response 401 ''Unauthorized. Add ?pass=YOUR_PASSWORD'')
   \<and> post_admin_reset unset_env
         \<lparr>query_pass = None, header_x_admin_pass = None, body_dm_text = None\<rparr> sample_world
       = (Response 401 ''Unauthorized. Add ?pass=YOUR_PASSWORD'', sample_world)"
  using unset_verify_token_accepts_missing_token
      [of unset_env "\<lparr>hub_mode = Some ''subscribe'', hub_verify_token = None,
                      hub_challenge = Some ''1158201444''\<rparr>"
          "\<lparr>query_pass = None, header_x_admin_pass = None, body_dm_text = None\<rparr>" sample_world]
  by (simp add: unset_env_def)

subsection \<open>The dashboard handlers\<close>

text \<open>
  C6. When the configured password is unset (or empty), or the password supplied in the
  query, or else in the header, is not the configured one, each of the three admin handlers
  answers with status 401 and returns the world it was given: the reply text, the dedupe
  set, the log and the file on disk are what they were.
\<close>

theorem unauthorized_admin_changes_nothing:
  assumes "\<not> truthy (ADMIN_PASSWORD e)
           \<or> or_else (query_pass rq) (header_x_admin_pass rq) \<noteq> ADMIN_PASSWORD e"
  shows "get_admin e rq w = (Response 401 ''Unauthorized. Add ?pass=YOUR_PASSWORD'', w)
         \<and> post_admin_save e rq w = (Response 401 ''Unauthorized. Add ?pass=YOUR_PASSWORD'', w)
         \<and> post_admin_reset e rq w = (Response 401 ''Unauthorized. Add ?pass=YOUR_PASSWORD'', w)"
proof -
  from assms have "\<not> authenticated e rq"
    by (auto simp: authenticated_def)
  then have "requireAuth e rq = Some (Response 401 ''Unauthorized. Add ?pass=YOUR_PASSWORD'')"
    by (rule requireAuth_refused)
  then show ?thesis
    by (simp add: get_admin_def post_admin_save_def post_admin_reset_def)
qed

theorem unauthorized_admin_changes_nothing_witness:
  "(\<not> truthy (ADMIN_PASSWORD unset_env)
    \<and> post_admin_reset unset_env (admin_with ''hunter2'' None) sample_world
        = (Response 401 ''Unauthorized. Add ?pass=YOUR_PASSWORD'', sample_world))
   \<and> (or_else (query_pass (admin_with ''guess'' (Some ''Buy now'')))
              (header_x_admin_pass (admin_with ''guess'' (Some ''Buy now'')))
        \<noteq> ADMIN_PASSWORD sample_env
    \<and> post_admin_save sample_env (admin_with ''guess'' (Some ''Buy now'')) sample_world
        = (Response 401 ''Unauthorized. Add ?pass=YOUR_PASSWORD'', sample_world)
    \<and> get_admin sample_env (admin_with ''guess'' (Some ''Buy now'')) sample_world
        = (Response 401 ''Unauthorized. Add ?pass=YOUR_PASSWORD'', sample_world))"
proof -
  have unset: "\<not> truthy (ADMIN_PASSWORD unset_env)"
    by (simp add: unset_env_def truthy_def)
  have wrong: "or_else (query_pass (admin_with ''guess'' (Some ''Buy now'')))
                       (header_x_admin_pass (admin_with ''guess'' (Some ''Buy now'')))
                 \<noteq> ADMIN_PASSWORD sample_env"
    by (simp add: admin_with_def or_else_def truthy_def sample_env_def)
  from unset wrong
    unauthorized_admin_changes_nothing [of unset_env "admin_with ''hunter2'' None" sample_world]
    unauthorized_admin_changes_nothing
      [of sample_env "admin_with ''guess'' (Some ''Buy now'')" sample_world]
  show ?thesis
    by blast
qed

text \<open>
  C7. An authenticated \<^verbatim>\<open>POST /admin/save\<close> trims the submitted text (an absent field
  counts as the empty text). A trimmed text that is not empty becomes the reply text; an
  empty one leaves the reply text as it was. Either way one \<^verbatim>\<open>config\<close> entry is
  put at the head of the log, the store is written to disk, the dedupe set is what it was,
  and nothing is sent to the platform.
\<close>

theorem post_admin_save_effect:
  assumes "authenticated e rq"
  shows "fst (post_admin_save e rq w)
           = Redirect (''/admin?pass='' @ encodeURIComponent (query_pass rq))
         \<and> dm_text (DB (snd (post_admin_save e rq w)))
             = (if trim (case body_dm_text rq of None \<Rightarrow> [] | Some s \<Rightarrow> s) \<noteq> []
                then trim (case body_dm_text rq of None \<Rightarrow> [] | Some s \<Rightarrow> s)
                else dm_text (DB w))
         \<and> sent_keys (DB (snd (post_admin_save e rq w))) = sent_keys (DB w)
         \<and> logs (DB (snd (post_admin_save e rq w)))
             = take 200 (\<lparr>time = clock e (reads w), type = ''config'',
                          msg = ''DM text updated'', extra = []\<rparr> # logs (DB w))
         \<and> disk (snd (post_admin_save e rq w)) = Some (DB (snd (post_admin_save e rq w)))
         \<and> outbox (snd (post_admin_save e rq w)) = outbox w"
  using requireAuth_authenticated [OF assms]
  by (simp add: post_admin_save_def Let_def saveData_def addLog_def new_entry_def)

theorem post_admin_save_effect_witness:
  "authenticated sample_env (admin_with ''hunter2'' (Some ''  Here is your link  ''))
   \<and> dm_text (DB (snd (post_admin_save sample_env
          (admin_with ''hunter2'' (Some ''  Here is your link  '')) sample_world)))
       = ''Here is your link''
   \<and> authenticated sample_env (admin_with ''hunter2'' (Some ''   ''))
   \<and> dm_text (DB (snd (post_admin_save sample_env
          (admin_with ''hunter2'' (Some ''   '')) sample_world)))
       = dm_text (DB sample_world)
   \<and> logs (DB (snd (post_admin_save sample_env
          (admin_with ''hunter2'' (Some ''   '')) sample_world)))
       = [\<lparr>time = 1001, type = ''config'', msg = ''DM text updated'', extra = []\<rparr>,
          \<lparr>time = 1000, type = ''config'', msg = ''DM text updated'', extra = []\<rparr>]"
proof -
  have auth: "authenticated sample_env (admin_with ''hunter2'' t)" for t
    by (simp add: authenticated_def admin_with_def or_else_def truthy_def sample_env_def)
  have full: "trim (case body_dm_text (admin_with ''hunter2'' (Some ''  Here is your link  ''))
                    of None \<Rightarrow> [] | Some s \<Rightarrow> s) = ''Here is your link''"
    by (simp add: admin_with_def trim_def trimStart_def trimEnd_def white_space_def
        trimStart_with.simps leading_space_def)
  have blank: "trim (case body_dm_text (admin_with ''hunter2'' (Some ''   ''))
                     of None \<Rightarrow> [] | Some s \<Rightarrow> s) = []"
    by (simp add: admin_with_def trim_def trimStart_def trimEnd_def white_space_def
        trimStart_with.simps leading_space_def)
  have old: "take 200 (\<lparr>time = clock sample_env (reads sample_world), type = ''config'',
                         msg = ''DM text updated'', extra = []\<rparr> # logs (DB sample_world))
      = [\<lparr>time = 1001, type = ''config'', msg = ''DM text updated'', extra = []\<rparr>,
         \<lparr>time = 1000, type = ''config'', msg = ''DM text updated'', extra = []\<rparr>]"
    by (simp add: sample_world_def sample_env_def sample_clock_def startup_def loadData_def
        saveData_def addLog_def new_entry_def)
  from post_admin_save_effect [OF auth, of "Some ''  Here is your link  ''" sample_world]
    post_admin_save_effect [OF auth, of "Some ''   ''" sample_world]
    auth full blank old
  show ?thesis
    by simp
qed



subsection \<open>Writing the store to disk\<close>

text \<open>
  C8 fails on the skip branch. In a world where post 17 and commenter 42 were answered and
  the store was written to disk, a second comment event of the pair puts a
  \<^verbatim>\<open>skip\<close> entry at the head of the log in memory, and the handler finishes with
  the file on disk as it was before: the file does not hold the entry.
\<close>

theorem skip_entry_not_written_to_disk:
  "disk replied_world = Some (DB replied_world)
   \<and> logs (DB (snd (post_webhook sample_env (batch [comment_event ''c2'' ''17'' ''42''])
                    replied_world)))
       = \<lparr>time = 1003, type = ''skip'', msg = ''Already messaged for this post'',
          extra = [(''key'', ''17:42'')]\<rparr> # logs (DB replied_world)
   \<and> disk (snd (post_webhook sample_env (batch [comment_event ''c2'' ''17'' ''42''])
              replied_world))
       = disk replied_world
   \<and> disk (snd (post_webhook sample_env (batch [comment_event ''c2'' ''17'' ''42''])
              replied_world))
       \<noteq> Some (DB (snd (post_webhook sample_env (batch [comment_event ''c2'' ''17'' ''42''])
                         replied_world)))"
  by code_simp

subsection \<open>One reply for each post and commenter\<close>

text \<open>
  C1 fails when two deliveries overlap. The handler tests the key before
  \<^verbatim>\<open>await sendPrivateReply\<close> and stores it after. When a second comment of commenter
  42 on post 17 is delivered while the handler of the first waits for the platform, both
  handlers find the key absent and both send: two replies go out for the one pair, the log
  gets two \<^verbatim>\<open>sent\<close> entries and no \<^verbatim>\<open>skip\<close> entry, and no handler is left in
  flight. When the second delivery arrives after the first handler has ended, one reply
  goes out and the second comment is a \<^verbatim>\<open>skip\<close> entry with the key.
\<close>

theorem overlapping_deliveries_reply_twice:
  "fst (occur_all sample_env overlapping ([], sample_world)) = []
   \<and> replies_sent (snd (occur_all sample_env overlapping ([], sample_world)))
       = [(\<lparr>url_comment_id = ''c1'', message = default_dm_text,
             access_token = Some ''page-token''\<rparr>, Responded True ''{}''),
          (\<lparr>url_comment_id = ''c2'', message = default_dm_text,
             access_token = Some ''page-token''\<rparr>, Responded True ''{}'')]
   \<and> logs (DB (snd (occur_all sample_env overlapping ([], sample_world))))
       = [\<lparr>time = 1004, type = ''sent'', msg = ''DM sent via private reply'',
            extra = [(''key'', ''17:42''), (''comment_id'', ''c2'')]\<rparr>,
          \<lparr>time = 1002, type = ''sent'', msg = ''DM sent via private reply'',
            extra = [(''key'', ''17:42''), (''comment_id'', ''c1'')]\<rparr>,
          \<lparr>time = 1000, type = ''config'', msg = ''DM text updated'', extra = []\<rparr>]
   \<and> sent_keys (DB (snd (occur_all sample_env overlapping ([], sample_world))))
       = [(''17:42'', 1003)]
   \<and> fst (occur_all sample_env one_by_one ([], sample_world)) = []
   \<and> replies_sent (snd (occur_all sample_env one_by_one ([], sample_world)))
       = [(\<lparr>url_comment_id = ''c1'', message = default_dm_text,
             access_token = Some ''page-token''\<rparr>, Responded True ''{}'')]
   \<and> logs (DB (snd (occur_all sample_env one_by_one ([], sample_world))))
       = [\<lparr>time = 1003, type = ''skip'', msg = ''Already messaged for this post'',
            extra = [(''key'', ''17:42'')]\<rparr>,
          \<lparr>time = 1002, type = ''sent'', msg = ''DM sent via private reply'',
            extra = [(''key'', ''17:42''), (''comment_id'', ''c1'')]\<rparr>,
          \<lparr>time = 1000, type = ''config'', msg = ''DM text updated'', extra = []\<rparr>]
   \<and> sent_keys (DB (snd (occur_all sample_env one_by_one ([], sample_world))))
       = [(''17:42'', 1001)]"
  by code_simp

subsection \<open>A failing reply\<close>

text \<open>
  C5. Take a delivery whose changes are \<open>pre\<close>, then \<open>ch\<close>, then \<open>post\<close>, where the
  changes of \<open>pre\<close> are processed without a throw and lead to the world \<open>w1\<close>, and
  \<open>ch\<close> is a comment event whose key does not count as sent and whose request the
  platform fails with the error \<open>err\<close>. Then the handler ends in the world \<open>w1\<close> with
  that one request added to the outbox and one \<^verbatim>\<open>error\<close> entry, holding the text of
  \<open>err\<close>, put at the head of the log, written to disk. The dedupe set is that of
  \<open>w1\<close>, so the key of \<open>ch\<close> is not in it, and the result is the same whatever
  \<open>post\<close> is: no key, no entry and no request comes from a change after \<open>ch\<close>.
\<close>

theorem failed_reply_aborts_batch:
  assumes "events_of b = pre @ ch # post"
    and "for_changes e pre w = (None, w1)"
    and "change_ids ch = (c, m, f)" and "truthy c" and "truthy m" and "truthy f"
    and "\<not> already_sent (DB w1) (dedupe_key m f)"
    and "thrown_by (graph e (length (outbox w1)) (reply_request e c w1)) = Some err"
  shows "snd (post_webhook e b w)
           = saveData (addLog e ''error'' ''Webhook processing failed''
               [(''error'', error_text err)]
               (w1\<lparr>outbox := outbox w1 @ [(reply_request e c w1,
                       graph e (length (outbox w1)) (reply_request e c w1))]\<rparr>))
    \<and> logs (DB (snd (post_webhook e b w)))
        = take 200 (\<lparr>time = clock e (reads w1), type = ''error'',
                     msg = ''Webhook processing failed'',
                     extra = [(''error'', error_text err)]\<rparr> # logs (DB w1))
    \<and> disk (snd (post_webhook e b w)) = Some (DB (snd (post_webhook e b w)))
    \<and> sent_keys (DB (snd (post_webhook e b w))) = sent_keys (DB w1)
    \<and> \<not> already_sent (DB (snd (post_webhook e b w))) (dedupe_key m f)
    \<and> outbox (snd (post_webhook e b w))
        = outbox w1 @ [(reply_request e c w1,
                        graph e (length (outbox w1)) (reply_request e c w1))]
    \<and> snd (post_webhook e b w) = snd (post_webhook e (batch (pre @ [ch])) w)"
proof -
  let ?w2 = "w1\<lparr>outbox := outbox w1 @ [(reply_request e c w1,
                       graph e (length (outbox w1)) (reply_request e c w1))]\<rparr>"
  let ?end = "saveData (addLog e ''error'' ''Webhook processing failed''
               [(''error'', error_text err)] ?w2)"
  have step: "process_change e ch w1 = (Some err, ?w2)"
    using assms(3-8) by (rule process_change_failed)
  have stop: "for_changes e (pre @ ch # rest) w = (Some err, ?w2)" for rest
    by (simp add: for_changes_append assms(2) step)
  have whole: "snd (post_webhook e b w) = ?end"
    by (simp add: post_webhook_def try_block_events assms(1) stop)
  have short: "snd (post_webhook e (batch (pre @ [ch])) w) = ?end"
    by (simp add: post_webhook_def try_block_events events_of_batch stop)
  have log: "logs (DB ?end)
        = take 200 (\<lparr>time = clock e (reads w1), type = ''error'',
                     msg = ''Webhook processing failed'',
                     extra = [(''error'', error_text err)]\<rparr> # logs (DB w1))"
    by (simp add: saveData_def addLog_def new_entry_def)
  have saved: "disk ?end = Some (DB ?end)"
    by (simp add: saveData_def)
  have keys: "sent_keys (DB ?end) = sent_keys (DB w1)"
    by (simp add: saveData_def addLog_def)
  then have absent: "\<not> already_sent (DB ?end) (dedupe_key m f)"
    using assms(7) by (simp add: already_sent_def)
  have box: "outbox ?end = outbox w1 @ [(reply_request e c w1,
                        graph e (length (outbox w1)) (reply_request e c w1))]"
    by (simp add: saveData_def addLog_def)
  from whole short log saved keys absent box show ?thesis
    by simp
qed

theorem failed_reply_aborts_batch_witness:
  "thrown_by (graph refusing_env (length (outbox sample_world))
       (reply_request refusing_env (Some ''c1'') sample_world))
     = Some (JsError ''Error'' denied_text)
   \<and> logs (DB (snd (post_webhook refusing_env
         (batch [comment_event ''c1'' ''17'' ''42'', comment_event ''c2'' ''18'' ''43''])
         sample_world)))
       = [\<lparr>time = 1001, type = ''error'', msg = ''Webhook processing failed'',
           extra = [(''error'', denied_text)]\<rparr>,
          \<lparr>time = 1000, type = ''config'', msg = ''DM text updated'', extra = []\<rparr>]
   \<and> sent_keys (DB (snd (post_webhook refusing_env
         (batch [comment_event ''c1'' ''17'' ''42'', comment_event ''c2'' ''18'' ''43''])
         sample_world))) = []
   \<and> outbox (snd (post_webhook refusing_env
         (batch [comment_event ''c1'' ''17'' ''42'', comment_event ''c2'' ''18'' ''43''])
         sample_world))
       = [(\<lparr>url_comment_id = ''c1'', message = default_dm_text,
             access_token = Some ''page-token''\<rparr>, Responded False denied_text)]
   \<and> disk (snd (post_webhook refusing_env
         (batch [comment_event ''c1'' ''17'' ''42'', comment_event ''c2'' ''18'' ''43''])
         sample_world))
       = Some (DB (snd (post_webhook refusing_env
         (batch [comment_event ''c1'' ''17'' ''42'', comment_event ''c2'' ''18'' ''43''])
         sample_world)))"
proof -
  let ?b = "batch [comment_event ''c1'' ''17'' ''42'', comment_event ''c2'' ''18'' ''43'']"
  have events: "events_of ?b = [] @ comment_event ''c1'' ''17'' ''42''
                                 # [comment_event ''c2'' ''18'' ''43'']"
    by (simp add: events_of_batch)
  have before: "for_changes refusing_env [] sample_world = (None, sample_world)"
    by simp
  have ids: "change_ids (comment_event ''c1'' ''17'' ''42'') = (Some ''c1'', Some ''17'', Some ''42'')"
    by (rule change_ids_comment_event)
  have present: "truthy (Some ''c1'')" "truthy (Some ''17'')" "truthy (Some ''42'')"
    by (simp_all add: truthy_def)
  have world: "sample_world
      = \<lparr>DB = \<lparr>dm_text = default_dm_text, sent_keys = [],
               logs = [\<lparr>time = 1000, type = ''config'', msg = ''DM text updated'',
                         extra = []\<rparr>]\<rparr>,
         disk = Some \<lparr>dm_text = default_dm_text, sent_keys = [],
               logs = [\<lparr>time = 1000, type = ''config'', msg = ''DM text updated'',
                         extra = []\<rparr>]\<rparr>,
         outbox = [], reads = 1\<rparr>"
    by code_simp
  have fresh: "\<not> already_sent (DB sample_world) (dedupe_key (Some ''17'') (Some ''42''))"
    by (simp add: world already_sent_def)
  have refused: "thrown_by (graph refusing_env (length (outbox sample_world))
       (reply_request refusing_env (Some ''c1'') sample_world))
     = Some (JsError ''Error'' denied_text)"
    by (simp add: refusing_env_def refusing_def thrown_by_def)
  have request: "reply_request refusing_env (Some ''c1'') sample_world
      = \<lparr>url_comment_id = ''c1'', message = default_dm_text,
         access_token = Some ''page-token''\<rparr>"
    by (simp add: world reply_request_def template_def refusing_env_def sample_env_def
        default_dm_text_def)
  have answer: "graph refusing_env n rq = Responded False denied_text" for n rq
    by (simp add: refusing_env_def refusing_def)
  have tick: "clock refusing_env (reads sample_world) = 1001"
    by (simp add: world refusing_env_def sample_env_def sample_clock_def)
  have reason: "error_text (JsError ''Error'' denied_text) = denied_text"
    by (simp add: error_text_def denied_text_def)
  have old_logs: "logs (DB sample_world)
      = [\<lparr>time = 1000, type = ''config'', msg = ''DM text updated'', extra = []\<rparr>]"
    by (simp add: world)
  have old_keys: "sent_keys (DB sample_world) = []"
    by (simp add: world)
  have old_box: "outbox sample_world = []"
    by (simp add: world)
  note fact = failed_reply_aborts_batch [OF events before ids present fresh refused]
  from fact have "logs (DB (snd (post_webhook refusing_env ?b sample_world)))
        = take 200 (\<lparr>time = clock refusing_env (reads sample_world), type = ''error'',
                     msg = ''Webhook processing failed'',
                     extra = [(''error'', error_text (JsError ''Error'' denied_text))]\<rparr>
                    # logs (DB sample_world))"
    by blast
  then have log: "logs (DB (snd (post_webhook refusing_env ?b sample_world)))
       = [\<lparr>time = 1001, type = ''error'', msg = ''Webhook processing failed'',
           extra = [(''error'', denied_text)]\<rparr>,
          \<lparr>time = 1000, type = ''config'', msg = ''DM text updated'', extra = []\<rparr>]"
    by (simp add: tick reason old_logs)
  from fact have "sent_keys (DB (snd (post_webhook refusing_env ?b sample_world)))
        = sent_keys (DB sample_world)"
    by blast
  then have keys: "sent_keys (DB (snd (post_webhook refusing_env ?b sample_world))) = []"
    by (simp add: old_keys)
  from fact have "outbox (snd (post_webhook refusing_env ?b sample_world))
        = outbox sample_world
          @ [(reply_request refusing_env (Some ''c1'') sample_world,
              graph refusing_env (length (outbox sample_world))
                (reply_request refusing_env (Some ''c1'') sample_world))]"
    by blast
  then have box: "outbox (snd (post_webhook refusing_env ?b sample_world))
       = [(\<lparr>url_comment_id = ''c1'', message = default_dm_text,
             access_token = Some ''page-token''\<rparr>, Responded False denied_text)]"
    by (simp add: old_box request answer)
  from fact have saved: "disk (snd (post_webhook refusing_env ?b sample_world))
        = Some (DB (snd (post_webhook refusing_env ?b sample_world)))"
    by blast
  from refused log keys box saved show ?thesis
    by blast
qed

subsection \<open>The encoding of the dedupe key\<close>

text \<open>
  C10. The key of a pair is the post identifier, a colon, the commenter identifier. Two
  different pairs can have one key: post \<^verbatim>\<open>a:b\<close> with commenter \<^verbatim>\<open>c\<close>, and post
  \<^verbatim>\<open>a\<close> with commenter \<^verbatim>\<open>b:c\<close>. Once the key of a pair counts as sent, a comment
  event of any pair with the same key is skipped: one \<^verbatim>\<open>skip\<close> entry, no request.
  Among pairs whose post identifier has no colon the key determines the pair; a pair
  whose post identifier has a colon shares its key with a different pair.
\<close>

theorem dedupe_key_not_injective:
  "dedupe_key (Some ''a:b'') (Some ''c'') = dedupe_key (Some ''a'') (Some ''b:c'')
   \<and> (''a:b'', ''c'') \<noteq> (''a'', ''b:c'')
   \<and> (dedupe_key (Some m) (Some f) = dedupe_key (Some m') (Some f')
        \<and> already_sent (DB w) (dedupe_key (Some m) (Some f)) \<and> for_pair m' f' ch
        \<longrightarrow> snd (post_webhook e (batch [ch]) w)
              = addLog e ''skip'' ''Already messaged for this post''
                  [(''key'', dedupe_key (Some m) (Some f))] w
            \<and> outbox (snd (post_webhook e (batch [ch]) w)) = outbox w)
   \<and> (CHR '':'' \<notin> set m \<and> CHR '':'' \<notin> set m'
        \<and> dedupe_key (Some m) (Some f) = dedupe_key (Some m') (Some f')
        \<longrightarrow> m = m' \<and> f = f')
   \<and> (CHR '':'' \<in> set m
        \<longrightarrow> (\<exists>m' f'. (m', f') \<noteq> (m, f)
               \<and> dedupe_key (Some m') (Some f') = dedupe_key (Some m) (Some f)))"
proof -
  have same: "dedupe_key (Some ''a:b'') (Some ''c'') = dedupe_key (Some ''a'') (Some ''b:c'')"
    by (simp add: dedupe_key_def template_def)
  have different: "(''a:b'', ''c'') \<noteq> (''a'', ''b:c'')"
    by simp
  have suppressed: "snd (post_webhook e (batch [ch]) w)
              = addLog e ''skip'' ''Already messaged for this post''
                  [(''key'', dedupe_key (Some m) (Some f))] w
            \<and> outbox (snd (post_webhook e (batch [ch]) w)) = outbox w"
    if keys: "dedupe_key (Some m) (Some f) = dedupe_key (Some m') (Some f')"
      and sent: "already_sent (DB w) (dedupe_key (Some m) (Some f))"
      and pair: "for_pair m' f' ch"
  proof -
    from pair obtain c where ids: "change_ids ch = (c, Some m', Some f')" "truthy c"
        "truthy (Some m')" "truthy (Some f')"
      by (rule for_pair_ids)
    from sent keys have "already_sent (DB w) (dedupe_key (Some m') (Some f'))"
      by simp
    with ids have "process_change e ch w
        = (None, addLog e ''skip'' ''Already messaged for this post''
                   [(''key'', dedupe_key (Some m') (Some f'))] w)"
      by (rule process_change_skip)
    then show ?thesis
      by (simp add: post_webhook_single keys addLog_frame)
  qed
  have inj: "m = m' \<and> f = f'"
    if "CHR '':'' \<notin> set m" and "CHR '':'' \<notin> set m'"
      and "dedupe_key (Some m) (Some f) = dedupe_key (Some m') (Some f')"
    using that by (rule dedupe_key_inj)
  have collide: "\<exists>m' f'. (m', f') \<noteq> (m, f)
               \<and> dedupe_key (Some m') (Some f') = dedupe_key (Some m) (Some f)"
    if "CHR '':'' \<in> set m"
    using that by (rule dedupe_key_collides)
  from same different suppressed inj collide show ?thesis
    by blast
qed

theorem dedupe_key_not_injective_witness:
  "dedupe_key (Some ''a:b'') (Some ''c'') = dedupe_key (Some ''a'') (Some ''b:c'')
   \<and> already_sent (DB colon_world) (dedupe_key (Some ''a:b'') (Some ''c''))
   \<and> for_pair ''a'' ''b:c'' (comment_event ''c2'' ''a'' ''b:c'')
   \<and> outbox (snd (post_webhook sample_env (batch [comment_event ''c2'' ''a'' ''b:c''])
                colon_world))
       = outbox colon_world
   \<and> CHR '':'' \<notin> set ''17''
   \<and> CHR '':'' \<notin> set ''18''
   \<and> dedupe_key (Some ''17'') (Some ''42'') = dedupe_key (Some ''17'') (Some ''42'')
   \<and> dedupe_key (Some ''17'') (Some ''42'') \<noteq> dedupe_key (Some ''18'') (Some ''42'')
   \<and> CHR '':'' \<in> set ''a:b''
   \<and> (\<exists>m' f'. (m', f') \<noteq> (''a:b'', ''c'')
         \<and> dedupe_key (Some m') (Some f') = dedupe_key (Some ''a:b'') (Some ''c''))"
proof -
  have same: "dedupe_key (Some ''a:b'') (Some ''c'') = dedupe_key (Some ''a'') (Some ''b:c'')"
    by (simp add: dedupe_key_def template_def)
  have sent: "already_sent (DB colon_world) (dedupe_key (Some ''a:b'') (Some ''c''))"
    by code_simp
  have pair: "for_pair ''a'' ''b:c'' (comment_event ''c2'' ''a'' ''b:c'')"
    by (simp add: for_pair_comment_event)
  have quiet: "outbox (snd (post_webhook sample_env (batch [comment_event ''c2'' ''a'' ''b:c''])
                colon_world))
       = outbox colon_world"
    using dedupe_key_not_injective
      [of "''a:b''" "''c''" "''a''" "''b:c''" colon_world "comment_event ''c2'' ''a'' ''b:c''"
          sample_env]
      same sent pair
    by blast
  have plain: "CHR '':'' \<notin> set ''17''" "CHR '':'' \<notin> set ''18''"
    by simp_all
  have refl: "dedupe_key (Some ''17'') (Some ''42'') = dedupe_key (Some ''17'') (Some ''42'')"
    by simp
  have apart: "dedupe_key (Some ''17'') (Some ''42'') \<noteq> dedupe_key (Some ''18'') (Some ''42'')"
  proof
    assume "dedupe_key (Some ''17'') (Some ''42'') = dedupe_key (Some ''18'') (Some ''42'')"
    with plain have "''17'' = ''18'' \<and> ''42'' = ''42''"
      using dedupe_key_not_injective
        [of "''17''" "''42''" "''18''" "''42''" sample_world "comment_event ''c1'' ''17'' ''42''"
            sample_env]
      by blast
    then show False
      by simp
  qed
  have colon: "CHR '':'' \<in> set ''a:b''"
    by simp
  then have other: "\<exists>m' f'. (m', f') \<noteq> (''a:b'', ''c'')
         \<and> dedupe_key (Some m') (Some f') = dedupe_key (Some ''a:b'') (Some ''c'')"
    using dedupe_key_not_injective
      [of "''a:b''" "''c''" "''a''" "''b:c''" colon_world "comment_event ''c2'' ''a'' ''b:c''"
          sample_env]
    by blast
  from same sent pair quiet plain refl apart colon other show ?thesis
    by blast
qed

end
